theory Spec2Isabelle
  imports Main
begin

section \<open>Errors, slices and events\<close>

text \<open>
  Go's \<open>error\<close> values. \<open>New\<close> is \<open>errors.New\<close>/\<open>errors.Errorf\<close> with the
  formatted message, \<open>Wrap\<close> is \<open>errors.Wrap(err, msg)\<close>, \<open>External\<close> is an error
  produced by a collaborator outside this code (registry client, signer, file system).
  \<open>LabelMissingError\<close> and \<open>LabelDecodeError\<close> are the errors of the label helpers.
\<close>

datatype error =
    External string
  | New string
  | Wrap error string
  | LabelMissingError string
  | LabelDecodeError

text \<open>A Go slice is \<open>nil\<close> (\<open>None\<close>) or holds elements; \<open>len\<close> and \<open>range\<close>
  treat \<open>nil\<close> as empty.\<close>

type_synonym 'a slice = "'a list option"

definition elems :: "'a slice \<Rightarrow> 'a list" where
  "elems s = (case s of None \<Rightarrow> [] | Some xs \<Rightarrow> xs)"

text \<open>Calls that leave the process: each is recorded, in order, in the trace that
  the effectful functions return beside their result.\<close>

datatype event =
    EvK8sChain
  | EvSaveCreds string
  | EvFetch string
  | EvWriteFile string
  | EvCosignSign
  | EvNotarySign string

type_synonym 'a traced = "'a \<times> event list"

fun isSignEvent :: "event \<Rightarrow> bool" where
  "isSignEvent EvCosignSign = True"
| "isSignEvent (EvNotarySign url) = True"
| "isSignEvent ev = False"

section \<open>JSON documents and decoding into structs\<close>

text \<open>
  The syntax tree of a JSON text. Members of an object are kept in document order,
  duplicates included, since \<open>json.Unmarshal\<close> processes them one after the other.
\<close>

datatype json =
    JNull
  | JBool bool
  | JNumber string
  | JString string
  | JArray "json list"
  | JObject "(string \<times> json) list"

text \<open>
  \<open>encoding/json\<close> matches an object key to a struct field by the field's json tag,
  exactly or case-insensitively. The case-insensitive comparison folds the ASCII letters
  and the two runes that fold to ASCII letters, U+212A (Kelvin sign, UTF-8 E2 84 AA) to K
  and U+017F (long s, UTF-8 C5 BF) to S.
\<close>

definition upper :: "char \<Rightarrow> char" where
  "upper c =
     (case map_of (zip ''abcdefghijklmnopqrstuvwxyz'' ''ABCDEFGHIJKLMNOPQRSTUVWXYZ'') c of
        Some u \<Rightarrow> u
      | None \<Rightarrow> c)"

fun foldName :: "string \<Rightarrow> string" where
  "foldName [] = []"
| "foldName (c # cs) =
     (if c = CHR 0xE2 \<and> take 2 cs = [CHR 0x84, CHR 0xAA] then CHR ''K'' # foldName (drop 2 cs)
      else if c = CHR 0xC5 \<and> take 1 cs = [CHR 0xBF] then CHR ''S'' # foldName (drop 1 cs)
      else upper c # foldName cs)"

definition matches :: "string \<Rightarrow> string \<Rightarrow> bool" where
  "matches name key \<longleftrightarrow> key = name \<or> foldName key = foldName name"

text \<open>A JSON value decoded into a Go \<open>string\<close>: \<open>null\<close> leaves the field as it is, a
  value of another kind is an \<open>UnmarshalTypeError\<close>.\<close>

definition decode_string :: "json \<Rightarrow> string \<Rightarrow> error + string" where
  "decode_string j cur =
     (case j of JString s \<Rightarrow> Inr s | JNull \<Rightarrow> Inr cur | _ \<Rightarrow> Inl LabelDecodeError)"

text \<open>A JSON value decoded into a struct: the members of an object are decoded in
  order into the fields they match (\<open>field\<close>), \<open>null\<close> leaves the struct as it is, a
  value of another kind is an \<open>UnmarshalTypeError\<close>. The decoder reports its first type
  error when it is done; the caller drops the value then, so the model stops there.\<close>

fun decode_object ::
  "(string \<Rightarrow> json \<Rightarrow> 'a \<Rightarrow> error + 'a) \<Rightarrow> (string \<times> json) list \<Rightarrow> 'a \<Rightarrow> error + 'a" where
  "decode_object field [] v = Inr v"
| "decode_object field ((k, j) # kvs) v =
     (case field k j v of Inl e \<Rightarrow> Inl e | Inr v' \<Rightarrow> decode_object field kvs v')"

definition decode_struct ::
  "(string \<Rightarrow> json \<Rightarrow> 'a \<Rightarrow> error + 'a) \<Rightarrow> json \<Rightarrow> 'a \<Rightarrow> error + 'a" where
  "decode_struct field j v =
     (case j of JObject kvs \<Rightarrow> decode_object field kvs v
              | JNull \<Rightarrow> Inr v
              | _ \<Rightarrow> Inl LabelDecodeError)"

section \<open>Package cnb: the metadata retriever\<close>

subsection \<open>Data\<close>

text \<open>\<open>runImageAppMetadata\<close> and \<open>appLayersMetadata\<close> (cnb_metadata.go, lines 93-101).
  A record field is a constant of the theory, so the three fields named \<open>RunImage\<close> in
  the source carry the initials of their struct.\<close>

record runImageAppMetadata =
  TopLayer :: string
  Reference :: string

text \<open>Modelled from the spec: \<open>RunImageMetadata\<close>, the type of \<open>StackMetadata.RunImage\<close>,
  is declared in package cnb, in a file whose source is not available. The code reads
  its field \<open>Image\<close>, the legacy stack run-image reference, which the labels of the
  tests store under \<open>image\<close>.\<close>

record RunImageMetadata =
  Image :: string

text \<open>Modelled from the spec: \<open>StackMetadata\<close> is declared in package cnb, in a file
  whose source is not available. It is the "legacy stack-run-image sub-object" of the
  layer-metadata label; the code reads \<open>Stack.RunImage.Image\<close>, and the labels of the
  tests store it as \<open>{"stack": {"runImage": {"image": ...}}}\<close>.\<close>

record StackMetadata =
  sm_RunImage :: RunImageMetadata

record appLayersMetadata =
  alm_RunImage :: runImageAppMetadata
  alm_Stack :: StackMetadata

text \<open>The fields of lifecycle's \<open>GroupBuildpack\<close> and \<open>BuildMetadata\<close> that this code
  reads.\<close>

record GroupBuildpack =
  ID :: string
  Version :: string
  Homepage :: string

record BuildMetadata =
  Buildpacks :: "GroupBuildpack slice"

text \<open>\<open>time.Time\<close> as a number; the zero \<open>time.Time{}\<close> is 0.\<close>

type_synonym time = int

text \<open>Modelled from the spec: \<open>BuiltImageStack\<close> is declared in package cnb, in a
  file whose source is not available; it is the "base-stack descriptor (run-image
  reference, stack identifier)", built at lines 86-89 from two strings.\<close>

record BuiltImageStack =
  bis_RunImage :: string
  bis_ID :: string

record BuiltImage =
  Identifier :: string
  CompletedAt :: time
  BuildpackMetadata :: "GroupBuildpack slice"
  Stack :: BuiltImageStack

text \<open>The zero value \<open>BuiltImage{}\<close>.\<close>

definition emptyBuiltImage :: BuiltImage where
  "emptyBuiltImage =
     \<lparr>Identifier = [], CompletedAt = 0, BuildpackMetadata = None,
      Stack = \<lparr>bis_RunImage = [], bis_ID = []\<rparr>\<rparr>"

text \<open>What this code reads of a \<open>ggcrv1.Image\<close>: the labels of its config and the
  creation time of its config, which may be unreadable.\<close>

record image =
  Labels :: "string \<rightharpoonup> string"
  Created :: "error + time"

text \<open>A parsed \<open>name.Reference\<close> is a tag reference or a digest reference.
  \<open>ref_Context\<close> is \<open>Context().String()\<close>, the registry and repository;
  \<open>ref_Identifier\<close> is \<open>Identifier()\<close>, the tag of a tag reference and the digest of a
  digest reference.\<close>

datatype reference =
    TagRef string string
  | DigestRef string string

fun ref_Context :: "reference \<Rightarrow> string" where
  "ref_Context (TagRef repo t) = repo"
| "ref_Context (DigestRef repo d) = repo"

fun ref_Identifier :: "reference \<Rightarrow> string" where
  "ref_Identifier (TagRef repo t) = t"
| "ref_Identifier (DigestRef repo d) = d"

text \<open>The library functions this package calls, taken as they are: the JSON parser of
  \<open>encoding/json\<close> (\<open>None\<close> on a syntax error), the decoding of a JSON value into
  lifecycle's \<open>platform.BuildMetadata\<close>, and \<open>name.ParseReference\<close>.\<close>

record libs =
  jsonParse :: "string \<Rightarrow> json option"
  decodeBuildMetadata :: "json \<Rightarrow> error + BuildMetadata"
  ParseReference :: "string \<Rightarrow> error + reference"

datatype keychain =
    Keychain nat
  | CredsKeychain "string \<rightharpoonup> string"
  | MultiKeychain "keychain list"

text \<open>\<open>RemoteMetadataRetriever\<close> (lines 15-22); \<open>ImageFetcher.Fetch\<close> returns the image
  and its identifier, or an error.\<close>

record RemoteMetadataRetriever =
  rmr_Keychain :: keychain
  ImageFetcher :: "keychain \<Rightarrow> string \<Rightarrow> error + (image \<times> string)"

subsection \<open>Labels\<close>

text \<open>The label names of lifecycle's \<open>platform\<close> package, as the tests spell them.\<close>

definition StackIDLabel :: string where
  "StackIDLabel = ''io.buildpacks.stack.id''"

definition BuildMetadataLabel :: string where
  "BuildMetadataLabel = ''io.buildpacks.build.metadata''"

definition LayerMetadataLabel :: string where
  "LayerMetadataLabel = ''io.buildpacks.lifecycle.metadata''"

text \<open>Modelled from the spec: \<open>imagehelpers.GetStringLabel\<close> has no source
  available. It reads a label of the image's config; a label that is absent is a
  \<open>LabelMissingError\<close>.\<close>

definition GetStringLabel :: "image \<Rightarrow> string \<Rightarrow> error + string" where
  "GetStringLabel img key =
     (case Labels img key of None \<Rightarrow> Inl (LabelMissingError key) | Some s \<Rightarrow> Inr s)"

text \<open>Modelled from the spec: \<open>imagehelpers.GetLabel\<close> has no source available. It
  reads a structured label: an absent label is a \<open>LabelMissingError\<close>, a label that does
  not decode is a \<open>LabelDecodeError\<close>. It decodes into the variable it is handed, which
  holds the zero value at both calls; \<open>decode\<close> is the decoding that the type of that
  variable selects.\<close>

definition GetLabel :: "libs \<Rightarrow> image \<Rightarrow> string \<Rightarrow> (json \<Rightarrow> error + 'a) \<Rightarrow> error + 'a" where
  "GetLabel lib img key decode =
     (case GetStringLabel img key of
        Inl err \<Rightarrow> Inl err
      | Inr stringValue \<Rightarrow>
          (case jsonParse lib stringValue of
             None \<Rightarrow> Inl LabelDecodeError
           | Some j \<Rightarrow> decode j))"

text \<open>Modelled from the spec: \<open>imagehelpers.GetCreatedAt\<close> has no source available.
  It reads "the image's creation timestamp from its config".\<close>

definition GetCreatedAt :: "image \<Rightarrow> error + time" where
  "GetCreatedAt img = Created img"

subsection \<open>Decoding the layer-metadata label\<close>

definition runImageAppMetadata_field ::
  "string \<Rightarrow> json \<Rightarrow> runImageAppMetadata \<Rightarrow> error + runImageAppMetadata" where
  "runImageAppMetadata_field k j v =
     (if matches ''topLayer'' k then
        (case decode_string j (TopLayer v) of Inl e \<Rightarrow> Inl e | Inr s \<Rightarrow> Inr (v\<lparr>TopLayer := s\<rparr>))
      else if matches ''reference'' k then
        (case decode_string j (Reference v) of Inl e \<Rightarrow> Inl e | Inr s \<Rightarrow> Inr (v\<lparr>Reference := s\<rparr>))
      else Inr v)"

text \<open>Modelled from the spec: the json tags of \<open>RunImageMetadata\<close> and
  \<open>StackMetadata\<close>, whose declarations are not available, are \<open>image\<close> and
  \<open>runImage\<close>, as the labels of the tests spell them.\<close>

definition RunImageMetadata_field ::
  "string \<Rightarrow> json \<Rightarrow> RunImageMetadata \<Rightarrow> error + RunImageMetadata" where
  "RunImageMetadata_field k j v =
     (if matches ''image'' k then
        (case decode_string j (Image v) of Inl e \<Rightarrow> Inl e | Inr s \<Rightarrow> Inr (v\<lparr>Image := s\<rparr>))
      else Inr v)"

definition StackMetadata_field ::
  "string \<Rightarrow> json \<Rightarrow> StackMetadata \<Rightarrow> error + StackMetadata" where
  "StackMetadata_field k j v =
     (if matches ''runImage'' k then
        (case decode_struct RunImageMetadata_field j (sm_RunImage v) of
           Inl e \<Rightarrow> Inl e | Inr s \<Rightarrow> Inr (v\<lparr>sm_RunImage := s\<rparr>))
      else Inr v)"

text \<open>The fields of \<open>appLayersMetadata\<close> are tagged \<open>runImage\<close> and \<open>stack\<close> (lines
  94-95); a member under any other key, such as \<open>app\<close>, is skipped.\<close>

definition appLayersMetadata_field ::
  "string \<Rightarrow> json \<Rightarrow> appLayersMetadata \<Rightarrow> error + appLayersMetadata" where
  "appLayersMetadata_field k j v =
     (if matches ''runImage'' k then
        (case decode_struct runImageAppMetadata_field j (alm_RunImage v) of
           Inl e \<Rightarrow> Inl e | Inr s \<Rightarrow> Inr (v\<lparr>alm_RunImage := s\<rparr>))
      else if matches ''stack'' k then
        (case decode_struct StackMetadata_field j (alm_Stack v) of
           Inl e \<Rightarrow> Inl e | Inr s \<Rightarrow> Inr (v\<lparr>alm_Stack := s\<rparr>))
      else Inr v)"

definition empty_appLayersMetadata :: appLayersMetadata where
  "empty_appLayersMetadata =
     \<lparr>alm_RunImage = \<lparr>TopLayer = [], Reference = []\<rparr>,
      alm_Stack = \<lparr>sm_RunImage = \<lparr>Image = []\<rparr>\<rparr>\<rparr>"

definition decode_appLayersMetadata :: "json \<Rightarrow> error + appLayersMetadata" where
  "decode_appLayersMetadata j = decode_struct appLayersMetadata_field j empty_appLayersMetadata"

subsection \<open>readBuiltImage, GetBuiltImage, GetCacheImage\<close>

text \<open>\<open>readBuiltImage\<close> (lines 49-91). A Go result \<open>(BuiltImage, error)\<close> is a pair
  whose second component is \<open>None\<close> for \<open>nil\<close>.\<close>

definition readBuiltImage :: "libs \<Rightarrow> image \<Rightarrow> string \<Rightarrow> BuiltImage \<times> error option" where
  "readBuiltImage lib appImage appImageId =
     (case GetStringLabel appImage StackIDLabel of
        Inl err \<Rightarrow> (emptyBuiltImage, None)
      | Inr stackId \<Rightarrow>
     (case GetLabel lib appImage BuildMetadataLabel (decodeBuildMetadata lib) of
        Inl err \<Rightarrow> (emptyBuiltImage, Some err)
      | Inr buildMetadata \<Rightarrow>
     (case GetLabel lib appImage LayerMetadataLabel decode_appLayersMetadata of
        Inl err \<Rightarrow> (emptyBuiltImage, Some err)
      | Inr layerMetadata \<Rightarrow>
     (case GetCreatedAt appImage of
        Inl err \<Rightarrow> (emptyBuiltImage, Some err)
      | Inr imageCreatedAt \<Rightarrow>
     (case ParseReference lib (Reference (alm_RunImage layerMetadata)) of
        Inl err \<Rightarrow> (emptyBuiltImage, Some err)
      | Inr runImageRef \<Rightarrow>
     (case ParseReference lib (Image (sm_RunImage (alm_Stack layerMetadata))) of
        Inl err \<Rightarrow> (emptyBuiltImage, Some err)
      | Inr baseImageRef \<Rightarrow>
          (\<lparr>Identifier = appImageId,
            CompletedAt = imageCreatedAt,
            BuildpackMetadata = Buildpacks buildMetadata,
            Stack = \<lparr>bis_RunImage = ref_Context baseImageRef @ ''@'' @ ref_Identifier runImageRef,
                     bis_ID = stackId\<rparr>\<rparr>, None)))))))"

text \<open>\<open>GetBuiltImage\<close> (lines 24-31) and \<open>GetCacheImage\<close> (lines 33-40): one call of
  \<open>Fetch\<close> each, with the tag as it was given.\<close>

definition GetBuiltImage ::
  "libs \<Rightarrow> RemoteMetadataRetriever \<Rightarrow> string \<Rightarrow> (BuiltImage \<times> error option) traced" where
  "GetBuiltImage lib r tag =
     (case ImageFetcher r (rmr_Keychain r) tag of
        Inl err \<Rightarrow> ((emptyBuiltImage, Some (Wrap err ''unable to fetch app image'')), [EvFetch tag])
      | Inr (appImage, appImageId) \<Rightarrow> (readBuiltImage lib appImage appImageId, [EvFetch tag]))"

definition GetCacheImage ::
  "RemoteMetadataRetriever \<Rightarrow> string \<Rightarrow> (string \<times> error option) traced" where
  "GetCacheImage r cacheTag =
     (case ImageFetcher r (rmr_Keychain r) cacheTag of
        Inl err \<Rightarrow> (([], Some (Wrap err ''unable to fetch cache image'')), [EvFetch cacheTag])
      | Inr (cacheImage, cacheImageId) \<Rightarrow> ((cacheImageId, None), [EvFetch cacheTag]))"

section \<open>Package main: the completion program\<close>

subsection \<open>Data, flags and the outside world\<close>

text \<open>The fields of lifecycle's \<open>platform.ExportReport\<close> that this code reads.\<close>

record ExportReportImage =
  Tags :: "string list"
  Digest :: string

record ExportReport =
  er_Image :: ExportReportImage

text \<open>\<open>corev1alpha1.BuildpackMetadata\<close> and \<open>build.BuildStatusMetadata\<close>, with the
  fields that lines 137-143 and 167-171 set.\<close>

record corev1alpha1_BuildpackMetadata =
  bm_Id :: string
  bm_Version :: string
  bm_Homepage :: string

record BuildStatusMetadata =
  bsm_BuildpackMetadata :: "corev1alpha1_BuildpackMetadata slice"
  LatestImage :: string
  LatestCacheImage :: string
  StackRunImage :: string
  StackID :: string

text \<open>The flag variables of lines 38-48, after \<open>flag.Parse()\<close>.\<close>

record flags =
  cacheTag :: string
  notaryV1URL :: string
  dockerCredentials :: "string list"
  dockerCfgCredentials :: "string list"
  dockerConfigCredentials :: "string list"
  cosignAnnotations :: "string list"
  cosignRepositories :: "string list"
  cosignDockerMediaTypes :: "string list"

definition registrySecretsDir :: string where
  "registrySecretsDir = ''/var/build-secrets''"

definition notarySecretDir :: string where
  "notarySecretDir = ''/var/notary/v1''"

definition cosignSecretLocation :: string where
  "cosignSecretLocation = ''/var/build-secrets/cosign''"

text \<open>A credential set: authentication material by registry domain.\<close>

type_synonym DockerCreds = "string \<rightharpoonup> string"

type_synonym overrides = "string \<rightharpoonup> string"

text \<open>What \<open>os.Stat\<close> answers: the file is there, it is not there, or another error.\<close>

datatype stat_result = StatOk | StatNotExist | StatError

text \<open>
  The collaborators of \<open>main\<close> outside this code, each with the answer it gives:
  the decoded report file, the cluster keychain, the secret parsers of package
  dockercreds, \<open>filepath.Join\<close>, the home directory, the file writes, the registry
  client, the metadata compressor, \<open>os.Stat\<close> and the two signing backends.
\<close>

record world =
  reportFile :: "error + ExportReport"
  k8schain_New :: "error + keychain"
  ParseBasicAuthSecrets :: "string \<Rightarrow> string list \<Rightarrow> error + DockerCreds"
  ParseDockerConfigSecret :: "string \<Rightarrow> error + DockerCreds"
  Join :: "string list \<Rightarrow> string"
  UserHomeDir :: "error + string"
  Save :: "DockerCreds \<Rightarrow> string \<Rightarrow> error option"
  Fetch :: "keychain \<Rightarrow> string \<Rightarrow> error + (image \<times> string)"
  Compress :: "BuildStatusMetadata \<Rightarrow> error + string"
  WriteFile :: "string \<Rightarrow> error option"
  Stat :: "string \<Rightarrow> stat_result"
  cosign_Sign :: "ExportReport \<Rightarrow> string \<Rightarrow> overrides \<Rightarrow> overrides \<Rightarrow> overrides \<Rightarrow> error option"
  notary_Sign :: "string \<Rightarrow> string \<Rightarrow> ExportReport \<Rightarrow> keychain \<Rightarrow> error option"

text \<open>Modelled from the spec: \<open>DockerCreds.Append\<close> of package dockercreds has no
  source available. The spec's contract is \<open>merge(existing, additional) -> (merged,
  error)\<close>, "later merges overwrite earlier entries for the same domain
  (last-writer-wins)"; it names no failure of the merge itself.\<close>

definition Append :: "DockerCreds \<Rightarrow> DockerCreds \<Rightarrow> error + DockerCreds" where
  "Append c a = Inr (c ++ a)"

subsection \<open>Steps that may end the process\<close>

text \<open>A step of \<open>main\<close> gives a value or ends the process with \<open>log.Fatal(err)\<close>
  (\<open>Inl err\<close>), and leaves its trace. \<open>andThen\<close> runs the next step after a step that
  gave a value.\<close>

type_synonym 'a run = "(error + 'a) traced"

definition andThen :: "'a run \<Rightarrow> ('a \<Rightarrow> 'b run) \<Rightarrow> 'b run" where
  "andThen m f =
     (case m of
        (Inl err, tr) \<Rightarrow> (Inl err, tr)
      | (Inr x, tr) \<Rightarrow> (case f x of (r, tr') \<Rightarrow> (r, tr @ tr')))"

definition quiet :: "error + 'a \<Rightarrow> 'a run" where
  "quiet r = (r, [])"

definition checked :: "('a \<times> error option) traced \<Rightarrow> 'a run" where
  "checked m =
     (case m of
        ((x, Some err), tr) \<Rightarrow> (Inl err, tr)
      | ((x, None), tr) \<Rightarrow> (Inr x, tr))"

definition checked_unit :: "error option traced \<Rightarrow> unit run" where
  "checked_unit m =
     (case m of
        (Some err, tr) \<Rightarrow> (Inl err, tr)
      | (None, tr) \<Rightarrow> (Inr (), tr))"

subsection \<open>Override arguments\<close>

text \<open>\<open>strings.Split(s, sep)\<close> for a separator of one character: the pieces between
  the occurrences of the separator, one more than there are occurrences.\<close>

fun Split :: "string \<Rightarrow> char \<Rightarrow> string list" where
  "Split [] sep = [[]]"
| "Split (c # cs) sep =
     (if c = sep then [] # Split cs sep
      else (c # hd (Split cs sep)) # tl (Split cs sep))"

text \<open>\<open>mapKeyValueArgs\<close> (lines 219-236); the loop carries the map built so far.\<close>

fun mapKeyValueArgs_loop :: "overrides \<Rightarrow> string list \<Rightarrow> error + overrides" where
  "mapKeyValueArgs_loop ov [] = Inr ov"
| "mapKeyValueArgs_loop ov (arg # args) =
     (let splitArg = Split arg (CHR ''='') in
      if length splitArg \<noteq> 2 then
        Inl (New (''argument not formatted as -arg=key=value: '' @ arg))
      else
        (let key = splitArg ! 0; value = splitArg ! 1 in
         mapKeyValueArgs_loop (ov(key \<mapsto> value)) args))"

definition mapKeyValueArgs :: "string list \<Rightarrow> error + overrides" where
  "mapKeyValueArgs args = mapKeyValueArgs_loop Map.empty args"

subsection \<open>Signing\<close>

text \<open>\<open>hasCosign\<close> (lines 238-241): true unless \<open>os.Stat\<close> says that nothing exists at
  the secret location.\<close>

definition hasCosign :: "world \<Rightarrow> bool" where
  "hasCosign w \<longleftrightarrow> Stat w cosignSecretLocation \<noteq> StatNotExist"

text \<open>The first block of \<open>signImage\<close> (lines 177-204).\<close>

definition signImage_cosign :: "flags \<Rightarrow> world \<Rightarrow> ExportReport \<Rightarrow> error option traced" where
  "signImage_cosign fl w report =
     (case mapKeyValueArgs (cosignAnnotations fl) of
        Inl err \<Rightarrow> (Some err, [])
      | Inr annotations \<Rightarrow>
     (case mapKeyValueArgs (cosignRepositories fl) of
        Inl err \<Rightarrow> (Some err, [])
      | Inr repositories \<Rightarrow>
     (case mapKeyValueArgs (cosignDockerMediaTypes fl) of
        Inl err \<Rightarrow> (Some err, [])
      | Inr mediaTypes \<Rightarrow>
     (case cosign_Sign w report cosignSecretLocation annotations repositories mediaTypes of
        Some err \<Rightarrow> (Some (Wrap err ''cosign sign''), [EvCosignSign])
      | None \<Rightarrow> (None, [EvCosignSign])))))"

text \<open>The second block of \<open>signImage\<close> (lines 206-216).\<close>

definition signImage_notary ::
  "flags \<Rightarrow> world \<Rightarrow> ExportReport \<Rightarrow> keychain \<Rightarrow> error option traced" where
  "signImage_notary fl w report keychain =
     (if notaryV1URL fl \<noteq> [] then
        (notary_Sign w (notaryV1URL fl) notarySecretDir report keychain,
         [EvNotarySign (notaryV1URL fl)])
      else (None, []))"

text \<open>\<open>signImage\<close> (lines 176-217).\<close>

definition signImage ::
  "flags \<Rightarrow> world \<Rightarrow> ExportReport \<Rightarrow> keychain \<Rightarrow> error option traced" where
  "signImage fl w report keychain =
     (case (if hasCosign w then signImage_cosign fl w report else (None, [])) of
        (Some err, tr) \<Rightarrow> (Some err, tr)
      | (None, tr) \<Rightarrow>
          (case signImage_notary fl w report keychain of (r, tr') \<Rightarrow> (r, tr @ tr')))"

subsection \<open>The build status record\<close>

text \<open>\<open>buildMetadataFromBuiltImage\<close> (lines 164-174): \<open>make\<close> gives an empty slice that
  is not \<open>nil\<close>, and the loop appends one element per buildpack.\<close>

definition buildMetadataFromBuiltImage ::
  "BuiltImage \<Rightarrow> corev1alpha1_BuildpackMetadata slice" where
  "buildMetadataFromBuiltImage builtImage =
     Some (foldl (\<lambda>buildpackMetadata metadata.
                    buildpackMetadata @
                      [\<lparr>bm_Id = ID metadata, bm_Version = Version metadata,
                        bm_Homepage = Homepage metadata\<rparr>])
                 [] (elems (BuildpackMetadata builtImage)))"

subsection \<open>main\<close>

text \<open>The loop of lines 89-105 over the docker-config secrets, in the order given.\<close>

fun loadDockerConfigs :: "world \<Rightarrow> DockerCreds \<Rightarrow> string list \<Rightarrow> error + DockerCreds" where
  "loadDockerConfigs w creds [] = Inr creds"
| "loadDockerConfigs w creds (c # cs) =
     (let credPath = Join w [registrySecretsDir, c] in
      case ParseDockerConfigSecret w credPath of
        Inl err \<Rightarrow> Inl err
      | Inr dockerCfgCreds \<Rightarrow>
          (case Append creds dockerCfgCreds of
             Inl err \<Rightarrow> Inl err
           | Inr creds' \<Rightarrow> loadDockerConfigs w creds' cs))"

text \<open>Lines 84-105: the basic-auth secrets, then the secrets of
  \<open>append(dockerCfgCredentials, dockerConfigCredentials...)\<close>.\<close>

definition loadCredentials :: "flags \<Rightarrow> world \<Rightarrow> error + DockerCreds" where
  "loadCredentials fl w =
     (case ParseBasicAuthSecrets w registrySecretsDir (dockerCredentials fl) of
        Inl err \<Rightarrow> Inl err
      | Inr creds \<Rightarrow>
          loadDockerConfigs w creds (dockerCfgCredentials fl @ dockerConfigCredentials fl))"

text \<open>Line 76.\<close>

definition builtImageRef :: "string \<Rightarrow> ExportReport \<Rightarrow> string" where
  "builtImageRef tag0 report = tag0 @ ''@'' @ Digest (er_Image report)"

text \<open>Lines 117-153, once the credentials are saved: the two fetches, the build status
  record, its compression and the write of the termination message.\<close>

definition retrieveAndRecord ::
  "flags \<Rightarrow> world \<Rightarrow> libs \<Rightarrow> string \<Rightarrow> keychain \<Rightarrow> unit run" where
  "retrieveAndRecord fl w lib imageRef keychain =
     (let metadataRetriever = \<lparr>rmr_Keychain = keychain, ImageFetcher = Fetch w\<rparr> in
      andThen (if cacheTag fl \<noteq> [] then checked (GetCacheImage metadataRetriever (cacheTag fl))
               else (Inr [], []))
        (\<lambda>cacheImageRef.
      andThen (checked (GetBuiltImage lib metadataRetriever imageRef))
        (\<lambda>builtImage.
      let buildStatusMetadata =
            \<lparr>bsm_BuildpackMetadata = buildMetadataFromBuiltImage builtImage,
             LatestImage = imageRef,
             LatestCacheImage = cacheImageRef,
             StackRunImage = bis_RunImage (Stack builtImage),
             StackID = bis_ID (Stack builtImage)\<rparr> in
      andThen (quiet (Compress w buildStatusMetadata))
        (\<lambda>data. checked_unit (WriteFile w data, [EvWriteFile data])))))"

text \<open>Lines 64-153 of \<open>main\<close>: everything before the signing step. It gives the report
  and the keychain that the signing step uses.\<close>

definition main_record :: "flags \<Rightarrow> world \<Rightarrow> libs \<Rightarrow> (ExportReport \<times> keychain) run" where
  "main_record fl w lib =
     andThen (quiet (reportFile w))
       (\<lambda>report.
     (case Tags (er_Image report) of
        [] \<Rightarrow> (Inl (New ''no image found in report''), [])
      | tag0 # _ \<Rightarrow>
     andThen (k8schain_New w, [EvK8sChain])
       (\<lambda>k8sKeychain.
     andThen (quiet (loadCredentials fl w))
       (\<lambda>creds.
     andThen (quiet (case UserHomeDir w of
                       Inl err \<Rightarrow> Inl (Wrap err ''error obtaining home directory'')
                     | Inr homeDir \<Rightarrow> Inr homeDir))
       (\<lambda>homeDir.
     (let configPath = Join w [homeDir, ''.docker'', ''config.json''] in
     andThen (case Save w creds configPath of
                Some err \<Rightarrow> (Inl (Wrap err ''error writing docker creds''), [EvSaveCreds configPath])
              | None \<Rightarrow> (Inr (), [EvSaveCreds configPath]))
       (\<lambda>_.
     (let keychain = MultiKeychain [k8sKeychain, CredsKeychain creds] in
     andThen (retrieveAndRecord fl w lib (builtImageRef tag0 report) keychain)
       (\<lambda>_. (Inr (report, keychain), []))))))))))"

text \<open>Lines 155-159: the signing step.\<close>

definition main_sign :: "flags \<Rightarrow> world \<Rightarrow> ExportReport \<Rightarrow> keychain \<Rightarrow> unit run" where
  "main_sign fl w report keychain =
     (if hasCosign w \<or> notaryV1URL fl \<noteq> [] then checked_unit (signImage fl w report keychain)
      else (Inr (), []))"

text \<open>\<open>main\<close> (lines 63-162): \<open>Inr ()\<close> is the return after "Build successful".\<close>

definition main :: "flags \<Rightarrow> world \<Rightarrow> libs \<Rightarrow> unit run" where
  "main fl w lib =
     andThen (main_record fl w lib) (\<lambda>(report, keychain). main_sign fl w report keychain)"

section \<open>Sample inputs\<close>

text \<open>The labels of the two test images of cnb_metadata_test.go, a registry double
  like the tests' fake client, and the answers of the libraries on these texts.\<close>

definition build_metadata_text :: string where
  \<open>build_metadata_text = ''{"buildpacks": [{"id": "test.id", "version": "1.2.3"}]}''\<close>

definition build_metadata_json :: json where
  "build_metadata_json =
     JObject [(''buildpacks'',
       JArray [JObject [(''id'', JString ''test.id''), (''version'', JString ''1.2.3'')]])]"

definition run_image_digest :: string where
  "run_image_digest = ''sha256:0fd6395e4fe38a0c089665cbe10f52fb26fc64b4b15e672ada412bd7ab5499a0''"

definition layers_0_5_text :: string where
  \<open>layers_0_5_text = ''{"app": {"sha": "sha256:119f3f610dade1fdf5b4b2473aea0c6b1317497cf20691ab6d184a9b2fa5c409"}, "runImage": {"topLayer": "sha256:719f3f610dade1fdf5b4b2473aea0c6b1317497cf20691ab6d184a9b2fa5c409", "reference": "localhost:5000/node@sha256:0fd6395e4fe38a0c089665cbe10f52fb26fc64b4b15e672ada412bd7ab5499a0"}, "stack": {"runImage": {"image": "gcr.io:443/run:full-cnb"}}}''\<close>

definition layers_0_6_text :: string where
  \<open>layers_0_6_text = ''{"app": [{"sha": "sha256:919f3f610dade1fdf5b4b2473aea0c6b1317497cf20691ab6d184a9b2fa5c409"}, {"sha": "sha256:119f3f610dade1fdf5b4b2473aea0c6b1317497cf20691ab6d184a9b2fa5c409"}], "runImage": {"topLayer": "sha256:719f3f610dade1fdf5b4b2473aea0c6b1317497cf20691ab6d184a9b2fa5c409", "reference": "localhost:5000/node@sha256:0fd6395e4fe38a0c089665cbe10f52fb26fc64b4b15e672ada412bd7ab5499a0"}, "stack": {"runImage": {"image": "gcr.io:443/run:full-cnb"}}}''\<close>

text \<open>A layer-metadata label whose run-image reference is by tag.\<close>

definition layers_tagged_text :: string where
  \<open>layers_tagged_text = ''{"runImage": {"reference": "localhost:5000/node:v1"}, "stack": {"runImage": {"image": "gcr.io:443/run:full-cnb"}}}''\<close>

definition layers_rest :: "(string \<times> json) list" where
  "layers_rest =
     [(''runImage'',
        JObject [(''topLayer'', JString ''sha256:719f3f610dade1fdf5b4b2473aea0c6b1317497cf20691ab6d184a9b2fa5c409''),
                 (''reference'', JString (''localhost:5000/node@'' @ run_image_digest))]),
      (''stack'', JObject [(''runImage'', JObject [(''image'', JString ''gcr.io:443/run:full-cnb'')])])]"

definition layers_0_5_json :: json where
  "layers_0_5_json =
     JObject ((''app'',
        JObject [(''sha'', JString ''sha256:119f3f610dade1fdf5b4b2473aea0c6b1317497cf20691ab6d184a9b2fa5c409'')])
       # layers_rest)"

definition layers_0_6_json :: json where
  "layers_0_6_json =
     JObject ((''app'',
        JArray [JObject [(''sha'', JString ''sha256:919f3f610dade1fdf5b4b2473aea0c6b1317497cf20691ab6d184a9b2fa5c409'')],
                JObject [(''sha'', JString ''sha256:119f3f610dade1fdf5b4b2473aea0c6b1317497cf20691ab6d184a9b2fa5c409'')]])
       # layers_rest)"

definition layers_tagged_json :: json where
  "layers_tagged_json =
     JObject [(''runImage'', JObject [(''reference'', JString ''localhost:5000/node:v1'')]),
              (''stack'', JObject [(''runImage'', JObject [(''image'', JString ''gcr.io:443/run:full-cnb'')])])]"

definition sample_libs :: libs where
  "sample_libs =
     \<lparr>jsonParse = (\<lambda>s.
        if s = build_metadata_text then Some build_metadata_json
        else if s = layers_0_5_text then Some layers_0_5_json
        else if s = layers_0_6_text then Some layers_0_6_json
        else if s = layers_tagged_text then Some layers_tagged_json
        else None),
      decodeBuildMetadata = (\<lambda>j.
        if j = build_metadata_json
        then Inr \<lparr>Buildpacks = Some [\<lparr>ID = ''test.id'', Version = ''1.2.3'', Homepage = []\<rparr>]\<rparr>
        else Inl LabelDecodeError),
      ParseReference = (\<lambda>s.
        if s = ''localhost:5000/node@'' @ run_image_digest
        then Inr (DigestRef ''localhost:5000/node'' run_image_digest)
        else if s = ''gcr.io:443/run:full-cnb'' then Inr (TagRef ''gcr.io:443/run'' ''full-cnb'')
        else if s = ''localhost:5000/node:v1'' then Inr (TagRef ''localhost:5000/node'' ''v1'')
        else Inl (External ''could not parse reference''))\<rparr>"


definition image_0_6 :: image where
  "image_0_6 =
     \<lparr>Labels = [BuildMetadataLabel \<mapsto> build_metadata_text,
                LayerMetadataLabel \<mapsto> layers_0_6_text,
                StackIDLabel \<mapsto> ''io.buildpacks.stack.bionic''],
      Created = Inr 1600000000\<rparr>"

definition image_tagged :: image where
  "image_tagged =
     \<lparr>Labels = [BuildMetadataLabel \<mapsto> build_metadata_text,
                LayerMetadataLabel \<mapsto> layers_tagged_text,
                StackIDLabel \<mapsto> ''io.buildpacks.stack.bionic''],
      Created = Inr 1600000000\<rparr>"

text \<open>An image with the two structured labels and no stack-id label.\<close>

definition image_no_stack_id :: image where
  "image_no_stack_id =
     \<lparr>Labels = [BuildMetadataLabel \<mapsto> build_metadata_text,
                LayerMetadataLabel \<mapsto> layers_0_6_text],
      Created = Inr 1600000000\<rparr>"

text \<open>An image without any label and without a readable creation time.\<close>

definition image_bare :: image where
  "image_bare = \<lparr>Labels = Map.empty, Created = Inl (External ''no config'')\<rparr>"

text \<open>A registry double: the images it holds, by name.\<close>

definition fakeClient ::
  "(string \<times> image \<times> string) list \<Rightarrow> keychain \<Rightarrow> string \<Rightarrow> error + (image \<times> string)" where
  "fakeClient images kc repoName =
     (case map_of images repoName of
        None \<Rightarrow> Inl (External ''image not found'')
      | Some entry \<Rightarrow> Inr entry)"

definition retrieverOf :: "image \<Rightarrow> RemoteMetadataRetriever" where
  "retrieverOf img =
     \<lparr>rmr_Keychain = Keychain 0,
      ImageFetcher = fakeClient [(''reg.io/appimage/name'', img, ''reg.io/appimage/name@sha256:aa'')]\<rparr>"


text \<open>A run of the program: the report of the spec's example, no credential flags, no
  cache tag, no signing secret and no notary URL; every collaborator succeeds.\<close>

definition joinSlash :: "string list \<Rightarrow> string" where
  "joinSlash parts = foldr (\<lambda>p rest. if rest = [] then p else p @ ''/'' @ rest) parts []"

definition sample_report :: ExportReport where
  "sample_report = \<lparr>er_Image = \<lparr>Tags = [''reg.io/app:latest''], Digest = ''sha256:abc''\<rparr>\<rparr>"

definition sample_flags :: flags where
  "sample_flags =
     \<lparr>cacheTag = [], notaryV1URL = [], dockerCredentials = [], dockerCfgCredentials = [],
      dockerConfigCredentials = [], cosignAnnotations = [], cosignRepositories = [],
      cosignDockerMediaTypes = []\<rparr>"

definition sample_world :: world where
  "sample_world =
     \<lparr>reportFile = Inr sample_report,
      k8schain_New = Inr (Keychain 0),
      ParseBasicAuthSecrets = (\<lambda>dir args. Inr [''basic.io'' \<mapsto> ''basic'', ''shared.io'' \<mapsto> ''basic'']),
      ParseDockerConfigSecret = (\<lambda>path.
        if path = ''/var/build-secrets/cfg'' then Inr [''shared.io'' \<mapsto> ''cfg'', ''cfg.io'' \<mapsto> ''cfg'']
        else if path = ''/var/build-secrets/json'' then Inr [''shared.io'' \<mapsto> ''json'']
        else Inl (External ''secret not found'')),
      Join = joinSlash,
      UserHomeDir = Inr ''/home/cnb'',
      Save = (\<lambda>creds path. None),
      Fetch = fakeClient
        [(''reg.io/app:latest@sha256:abc'', image_0_6, ''reg.io/app@sha256:abc''),
         (''reg.io/cache'', image_bare, ''reg.io/cache@sha256:cc'')],
      Compress = (\<lambda>m. Inr ''compressed''),
      WriteFile = (\<lambda>data. None),
      Stat = (\<lambda>path. StatNotExist),
      cosign_Sign = (\<lambda>report location annotations repositories mediaTypes. None),
      notary_Sign = (\<lambda>url dir report keychain. None)\<rparr>"

text \<open>Variants of the run: a notary URL and one override argument, well formed or
  not; a signing secret in place, with a backend that signs or one that fails; the
  three kinds of credential flags.\<close>

definition signing_flags :: flags where
  "signing_flags =
     sample_flags\<lparr>notaryV1URL := ''https://notary.example.com'',
                  cosignAnnotations := [''team=build'']\<rparr>"

definition malformed_flags :: flags where
  "malformed_flags =
     sample_flags\<lparr>notaryV1URL := ''https://notary.example.com'',
                  cosignAnnotations := [''novalue'']\<rparr>"

definition credential_flags :: flags where
  "credential_flags =
     sample_flags\<lparr>dockerCredentials := [''secret=basic.io''],
                  dockerCfgCredentials := [''cfg''],
                  dockerConfigCredentials := [''json'']\<rparr>"

definition cosign_world :: world where
  "cosign_world = sample_world\<lparr>Stat := (\<lambda>path. StatOk)\<rparr>"

definition failing_cosign_world :: world where
  "failing_cosign_world =
     sample_world\<lparr>Stat := (\<lambda>path. StatOk),
                  cosign_Sign := (\<lambda>report location annotations repositories mediaTypes.
                    Some (External ''signing failed''))\<rparr>"

definition empty_report_world :: world where
  "empty_report_world =
     sample_world\<lparr>reportFile := Inr \<lparr>er_Image = \<lparr>Tags = [], Digest = ''sha256:abc''\<rparr>\<rparr>\<rparr>"

section \<open>Evaluation on the sample inputs\<close>

lemmas sample_label_defs =
  StackIDLabel_def BuildMetadataLabel_def LayerMetadataLabel_def
  build_metadata_text_def layers_0_5_text_def layers_0_6_text_def layers_tagged_text_def

lemmas sample_json_defs =
  sample_libs_def build_metadata_json_def layers_0_5_json_def layers_0_6_json_def
  layers_tagged_json_def layers_rest_def run_image_digest_def

lemmas decode_defs =
  GetStringLabel_def GetLabel_def GetCreatedAt_def
  decode_appLayersMetadata_def decode_struct_def appLayersMetadata_field_def
  runImageAppMetadata_field_def StackMetadata_field_def RunImageMetadata_field_def
  decode_string_def matches_def upper_def empty_appLayersMetadata_def

lemmas sample_world_defs =
  sample_world_def sample_flags_def sample_report_def signing_flags_def malformed_flags_def
  credential_flags_def cosign_world_def failing_cosign_world_def empty_report_world_def
  registrySecretsDir_def notarySecretDir_def cosignSecretLocation_def joinSlash_def
  fakeClient_def

lemmas main_defs =
  main_def main_sign_def main_record_def retrieveAndRecord_def loadCredentials_def
  builtImageRef_def andThen_def quiet_def checked_def checked_unit_def Append_def
  signImage_def signImage_cosign_def signImage_notary_def hasCosign_def mapKeyValueArgs_def
  GetBuiltImage_def GetCacheImage_def readBuiltImage_def buildMetadataFromBuiltImage_def
  elems_def

lemmas all_eval_defs =
  main_defs sample_world_defs decode_defs sample_json_defs sample_label_defs
  image_0_6_def image_bare_def

section \<open>Properties of the metadata retriever\<close>

subsection \<open>Missing labels\<close>

text \<open>
  C1. Retrieval is to fail when the stack-id, the build-metadata or the layer-metadata
  label is absent. On an image that carries the two structured labels and no stack-id
  label, \<open>GetBuiltImage\<close> fetches the image and returns the zero \<open>BuiltImage\<close> with a
  \<open>nil\<close> error: line 52 returns \<open>nil\<close> where lines 58 and 64 return \<open>err\<close>.
\<close>

theorem GetBuiltImage_without_stack_id:
  "GetBuiltImage sample_libs (retrieverOf image_no_stack_id) ''reg.io/appimage/name''
     = ((emptyBuiltImage, None), [EvFetch ''reg.io/appimage/name''])"
  by (simp add: GetBuiltImage_def retrieverOf_def fakeClient_def readBuiltImage_def
      GetStringLabel_def image_no_stack_id_def sample_label_defs)

text \<open>The two sibling checks do return the error of the absent label.\<close>

lemma readBuiltImage_without_build_metadata:
  assumes "Labels img StackIDLabel = Some stackId" and "Labels img BuildMetadataLabel = None"
  shows "readBuiltImage lib img ident = (emptyBuiltImage, Some (LabelMissingError BuildMetadataLabel))"
  using assms by (simp add: readBuiltImage_def GetLabel_def GetStringLabel_def)

lemma readBuiltImage_without_layer_metadata:
  assumes "Labels img StackIDLabel = Some stackId"
    and "GetLabel lib img BuildMetadataLabel (decodeBuildMetadata lib) = Inr buildMetadata"
    and "Labels img LayerMetadataLabel = None"
  shows "readBuiltImage lib img ident = (emptyBuiltImage, Some (LabelMissingError LayerMetadataLabel))"
  using assms by (simp add: readBuiltImage_def GetLabel_def GetStringLabel_def)

subsection \<open>The stack run-image reference\<close>

text \<open>
  C2, as amended. When the app image is fetched, its three labels are present and
  decode, its creation time is readable and both references parse, \<open>GetBuiltImage\<close>
  returns no error and \<open>Stack.RunImage\<close> is the repository of the legacy stack
  run-image reference, then \<open>@\<close>, then the identifier of the run-image reference: its
  digest when it is a digest reference, its tag when it is a tag reference.
\<close>

theorem GetBuiltImage_stack_run_image:
  assumes "ImageFetcher r (rmr_Keychain r) tag = Inr (img, ident)"
    and "GetStringLabel img StackIDLabel = Inr stackId"
    and "GetLabel lib img BuildMetadataLabel (decodeBuildMetadata lib) = Inr buildMetadata"
    and "GetLabel lib img LayerMetadataLabel decode_appLayersMetadata = Inr layerMetadata"
    and "GetCreatedAt img = Inr imageCreatedAt"
    and "ParseReference lib (Reference (alm_RunImage layerMetadata)) = Inr runImageRef"
    and "ParseReference lib (Image (sm_RunImage (alm_Stack layerMetadata))) = Inr baseImageRef"
  shows "snd (fst (GetBuiltImage lib r tag)) = None \<and>
         bis_RunImage (Stack (fst (fst (GetBuiltImage lib r tag)))) =
           ref_Context baseImageRef @ ''@'' @
             (case runImageRef of DigestRef repo d \<Rightarrow> d | TagRef repo t \<Rightarrow> t)"
  using assms by (cases runImageRef) (simp_all add: GetBuiltImage_def readBuiltImage_def)

text \<open>On the image of the tests the run-image reference is by digest, and the result is
  the string that the tests expect.\<close>

theorem GetBuiltImage_stack_run_image_witness:
  "snd (fst (GetBuiltImage sample_libs (retrieverOf image_0_6) ''reg.io/appimage/name'')) = None \<and>
   bis_RunImage (Stack (fst (fst (GetBuiltImage sample_libs (retrieverOf image_0_6)
       ''reg.io/appimage/name'')))) =
     ''gcr.io:443/run@sha256:0fd6395e4fe38a0c089665cbe10f52fb26fc64b4b15e672ada412bd7ab5499a0''"
proof -
  let ?lm = "\<lparr>alm_RunImage =
                 \<lparr>TopLayer = ''sha256:719f3f610dade1fdf5b4b2473aea0c6b1317497cf20691ab6d184a9b2fa5c409'',
                  Reference = ''localhost:5000/node@'' @ run_image_digest\<rparr>,
               alm_Stack = \<lparr>sm_RunImage = \<lparr>Image = ''gcr.io:443/run:full-cnb''\<rparr>\<rparr>\<rparr>"
  have h1: "ImageFetcher (retrieverOf image_0_6) (rmr_Keychain (retrieverOf image_0_6))
              ''reg.io/appimage/name'' = Inr (image_0_6, ''reg.io/appimage/name@sha256:aa'')"
    by (simp add: retrieverOf_def fakeClient_def)
  have h2: "GetStringLabel image_0_6 StackIDLabel = Inr ''io.buildpacks.stack.bionic''"
    by (simp add: GetStringLabel_def image_0_6_def sample_label_defs)
  have h3: "GetLabel sample_libs image_0_6 BuildMetadataLabel (decodeBuildMetadata sample_libs) =
              Inr \<lparr>Buildpacks = Some [\<lparr>ID = ''test.id'', Version = ''1.2.3'', Homepage = []\<rparr>]\<rparr>"
    by (simp add: GetLabel_def GetStringLabel_def image_0_6_def sample_label_defs sample_libs_def)
  have h4: "GetLabel sample_libs image_0_6 LayerMetadataLabel decode_appLayersMetadata = Inr ?lm"
    by (simp add: decode_defs image_0_6_def sample_label_defs sample_json_defs)
  have h5: "GetCreatedAt image_0_6 = Inr 1600000000"
    by (simp add: GetCreatedAt_def image_0_6_def)
  have h6: "ParseReference sample_libs (Reference (alm_RunImage ?lm)) =
              Inr (DigestRef ''localhost:5000/node'' run_image_digest)"
    by (simp add: sample_libs_def)
  have h7: "ParseReference sample_libs (Image (sm_RunImage (alm_Stack ?lm))) =
              Inr (TagRef ''gcr.io:443/run'' ''full-cnb'')"
    by (simp add: sample_libs_def run_image_digest_def)
  show ?thesis
    using GetBuiltImage_stack_run_image [OF h1 h2 h3 h4 h5 h6 h7]
    by (simp add: run_image_digest_def)
qed

text \<open>C2 as stated fails on an image whose run-image reference label is by tag: all
  labels parse, and the reconstructed reference is the repository, \<open>@\<close> and that tag.\<close>

theorem GetBuiltImage_tagged_run_image:
  "fst (GetBuiltImage sample_libs (retrieverOf image_tagged) ''reg.io/appimage/name'') =
     (\<lparr>Identifier = ''reg.io/appimage/name@sha256:aa'', CompletedAt = 1600000000,
       BuildpackMetadata = Some [\<lparr>ID = ''test.id'', Version = ''1.2.3'', Homepage = []\<rparr>],
       Stack = \<lparr>bis_RunImage = ''gcr.io:443/run@v1'', bis_ID = ''io.buildpacks.stack.bionic''\<rparr>\<rparr>,
      None)"
  by (simp add: GetBuiltImage_def retrieverOf_def fakeClient_def readBuiltImage_def
      decode_defs image_tagged_def sample_label_defs sample_json_defs)

subsection \<open>The two schemas of the app layers\<close>









subsection \<open>The cache image\<close>

text \<open>
  C10. \<open>GetCacheImage\<close> calls the fetch capability once, with the cache tag. When the
  fetch gives an image and an identifier, the result is that identifier and no error,
  whatever the image is: nothing of the image is read. When the fetch fails, the result
  is the empty string and the fetch error wrapped.
\<close>

theorem GetCacheImage_fetch:
  "(ImageFetcher r (rmr_Keychain r) tag = Inr (cacheImage, cacheImageId) \<longrightarrow>
      GetCacheImage r tag = ((cacheImageId, None), [EvFetch tag])) \<and>
   (ImageFetcher r (rmr_Keychain r) tag = Inl err \<longrightarrow>
      GetCacheImage r tag =
        (([], Some (Wrap err ''unable to fetch cache image'')), [EvFetch tag]))"
  by (simp add: GetCacheImage_def)

text \<open>A cache image without labels and without a readable config, and a tag that the
  registry does not hold.\<close>

theorem GetCacheImage_fetch_witness:
  "ImageFetcher (retrieverOf image_bare) (rmr_Keychain (retrieverOf image_bare)) ''reg.io/appimage/name''
     = Inr (image_bare, ''reg.io/appimage/name@sha256:aa'') \<and>
   GetCacheImage (retrieverOf image_bare) ''reg.io/appimage/name''
     = ((''reg.io/appimage/name@sha256:aa'', None), [EvFetch ''reg.io/appimage/name'']) \<and>
   ImageFetcher (retrieverOf image_bare) (rmr_Keychain (retrieverOf image_bare)) ''reg.io/other''
     = Inl (External ''image not found'') \<and>
   GetCacheImage (retrieverOf image_bare) ''reg.io/other''
     = (([], Some (Wrap (External ''image not found'') ''unable to fetch cache image'')),
        [EvFetch ''reg.io/other''])"
  using GetCacheImage_fetch [of "retrieverOf image_bare" "''reg.io/appimage/name''" image_bare
      "''reg.io/appimage/name@sha256:aa''" "External ''image not found''"]
    GetCacheImage_fetch [of "retrieverOf image_bare" "''reg.io/other''" image_bare
      "''reg.io/appimage/name@sha256:aa''" "External ''image not found''"]
  by (simp add: retrieverOf_def fakeClient_def)

section \<open>Properties of the completion program\<close>

subsection \<open>The build status record\<close>



subsection \<open>Override arguments and the signing dispatcher\<close>

lemma Split_length: "length (Split s sep) = Suc (count_list s sep)"
  by (induction s) simp_all

lemma mapKeyValueArgs_loop_well_formed:
  "\<forall>arg \<in> set args. count_list arg (CHR ''='') = 1 \<Longrightarrow>
   \<exists>m. mapKeyValueArgs_loop ov args = Inr m"
  by (induction args arbitrary: ov) (simp_all add: Split_length Let_def)

lemma mapKeyValueArgs_loop_malformed:
  "\<exists>arg \<in> set args. count_list arg (CHR ''='') \<noteq> 1 \<Longrightarrow>
   \<exists>arg \<in> set args. count_list arg (CHR ''='') \<noteq> 1 \<and>
     mapKeyValueArgs_loop ov args =
       Inl (New (''argument not formatted as -arg=key=value: '' @ arg))"
proof (induction args arbitrary: ov)
  case Nil
  then show ?case by simp
next
  case (Cons a args)
  show ?case
  proof (cases "count_list a (CHR ''='') = 1")
    case True
    with Cons.prems have "\<exists>arg \<in> set args. count_list arg (CHR ''='') \<noteq> 1" by auto
    from Cons.IH [OF this] True show ?thesis
      by (simp add: Split_length Let_def)
  next
    case False
    then show ?thesis by (simp add: Split_length Let_def)
  qed
qed

lemma mapKeyValueArgs_cases:
  "(\<exists>m. mapKeyValueArgs args = Inr m \<and> (\<forall>arg \<in> set args. count_list arg (CHR ''='') = 1)) \<or>
   (\<exists>arg \<in> set args. count_list arg (CHR ''='') \<noteq> 1 \<and>
      mapKeyValueArgs args = Inl (New (''argument not formatted as -arg=key=value: '' @ arg)))"
  unfolding mapKeyValueArgs_def
  using mapKeyValueArgs_loop_well_formed [of args Map.empty]
    mapKeyValueArgs_loop_malformed [of args Map.empty]
  by blast

text \<open>
  C4. The cosign backend is active, the three override lists parse, and the backend's
  \<open>Sign\<close> returns an error. Then \<open>signImage\<close> returns that error wrapped with "cosign
  sign", and its trace is the one call of the cosign backend: no second attempt, and no
  call of the notary backend, whether a notary URL is set or not.
\<close>

theorem signImage_cosign_failure:
  assumes "hasCosign w"
    and "mapKeyValueArgs (cosignAnnotations fl) = Inr annotations"
    and "mapKeyValueArgs (cosignRepositories fl) = Inr repositories"
    and "mapKeyValueArgs (cosignDockerMediaTypes fl) = Inr mediaTypes"
    and "cosign_Sign w report cosignSecretLocation annotations repositories mediaTypes = Some err"
  shows "signImage fl w report keychain = (Some (Wrap err ''cosign sign''), [EvCosignSign])"
  using assms by (simp add: signImage_def signImage_cosign_def)

text \<open>A run with a notary URL set and a cosign backend that fails.\<close>

theorem signImage_cosign_failure_witness:
  "signImage signing_flags failing_cosign_world sample_report (Keychain 0) =
     (Some (Wrap (External ''signing failed'') ''cosign sign''), [EvCosignSign])"
proof -
  have h1: "hasCosign failing_cosign_world"
    by (simp add: hasCosign_def sample_world_defs)
  have h2: "mapKeyValueArgs (cosignAnnotations signing_flags) = Inr [''team'' \<mapsto> ''build'']"
    by (simp add: mapKeyValueArgs_def sample_world_defs)
  have h3: "mapKeyValueArgs (cosignRepositories signing_flags) = Inr Map.empty"
    by (simp add: mapKeyValueArgs_def sample_world_defs)
  have h4: "mapKeyValueArgs (cosignDockerMediaTypes signing_flags) = Inr Map.empty"
    by (simp add: mapKeyValueArgs_def sample_world_defs)
  have h5: "cosign_Sign failing_cosign_world sample_report cosignSecretLocation
              [''team'' \<mapsto> ''build''] Map.empty Map.empty = Some (External ''signing failed'')"
    by (simp add: sample_world_defs)
  show ?thesis
    by (rule signImage_cosign_failure [OF h1 h2 h3 h4 h5])
qed

text \<open>
  C5, as amended. The cosign backend is active and some argument of the three override
  lists does not hold exactly one \<open>=\<close>, that is, does not split into exactly two parts.
  Then \<open>signImage\<close> returns the parse error of such an argument, and its trace is empty:
  no signing backend has been called.
\<close>

theorem signImage_malformed_override:
  assumes "hasCosign w"
    and "\<exists>arg \<in> set (cosignAnnotations fl @ cosignRepositories fl @ cosignDockerMediaTypes fl).
           count_list arg (CHR ''='') \<noteq> 1"
  shows "\<exists>arg \<in> set (cosignAnnotations fl @ cosignRepositories fl @ cosignDockerMediaTypes fl).
           count_list arg (CHR ''='') \<noteq> 1 \<and>
           length (Split arg (CHR ''='')) \<noteq> 2 \<and>
           signImage fl w report keychain =
             (Some (New (''argument not formatted as -arg=key=value: '' @ arg)), [])"
proof -
  have sl: "\<And>arg. length (Split arg (CHR ''='')) \<noteq> 2 \<longleftrightarrow> count_list arg (CHR ''='') \<noteq> 1"
    by (simp add: Split_length)
  show ?thesis
    using assms mapKeyValueArgs_cases [of "cosignAnnotations fl"]
      mapKeyValueArgs_cases [of "cosignRepositories fl"]
      mapKeyValueArgs_cases [of "cosignDockerMediaTypes fl"]
    unfolding sl
    by (auto simp add: signImage_def signImage_cosign_def)
qed

theorem signImage_malformed_override_witness:
  "signImage malformed_flags cosign_world sample_report (Keychain 0) =
     (Some (New ''argument not formatted as -arg=key=value: novalue''), [])"
proof -
  have h1: "hasCosign cosign_world"
    by (simp add: hasCosign_def sample_world_defs)
  have h2: "\<exists>arg \<in> set (cosignAnnotations malformed_flags @ cosignRepositories malformed_flags @
                        cosignDockerMediaTypes malformed_flags). count_list arg (CHR ''='') \<noteq> 1"
    by (simp add: sample_world_defs)
  show ?thesis
    using signImage_malformed_override [OF h1 h2, of sample_report "Keychain 0"]
    by (simp add: sample_world_defs)
qed

text \<open>C5 as stated fails twice. Without a signing secret the override arguments are
  never parsed: an argument without \<open>=\<close> raises no error and the notary backend is
  called. With a signing secret the parse error is raised by the signing step, at the
  end of \<open>main\<close>, after the registry has been asked for the built image.\<close>

theorem malformed_override_not_rejected:
  "count_list ''novalue'' (CHR ''='') \<noteq> 1 \<and>
   length (Split ''novalue'' (CHR ''='')) \<noteq> 2 \<and>
   signImage malformed_flags sample_world sample_report (Keychain 0) =
     (None, [EvNotarySign ''https://notary.example.com'']) \<and>
   main malformed_flags cosign_world sample_libs =
     (Inl (New ''argument not formatted as -arg=key=value: novalue''),
      [EvK8sChain, EvSaveCreds ''/home/cnb/.docker/config.json'',
       EvFetch ''reg.io/app:latest@sha256:abc'', EvWriteFile ''compressed''])"
  by (simp add: main_defs sample_world_defs decode_defs sample_json_defs sample_label_defs
      image_0_6_def)

subsection \<open>The trace of main\<close>

lemma snd_quiet [simp]: "snd (quiet r) = []"
  by (simp add: quiet_def)

lemma snd_checked [simp]: "snd (checked m) = snd m"
  by (simp add: checked_def split: prod.splits option.splits)

lemma snd_checked_unit [simp]: "snd (checked_unit m) = snd m"
  by (simp add: checked_unit_def split: prod.splits option.splits)

lemma snd_GetCacheImage [simp]: "snd (GetCacheImage r tag) = [EvFetch tag]"
  by (simp add: GetCacheImage_def split: sum.splits)

lemma snd_GetBuiltImage [simp]: "snd (GetBuiltImage lib r tag) = [EvFetch tag]"
  by (simp add: GetBuiltImage_def split: sum.splits)

lemma andThen_events:
  assumes "\<forall>ev \<in> set (snd m). P ev" and "\<And>x. \<forall>ev \<in> set (snd (f x)). P ev"
  shows "\<forall>ev \<in> set (snd (andThen m f)). P ev"
proof (cases m)
  case (Pair r tr)
  show ?thesis
  proof (cases r)
    case (Inl err)
    with Pair assms(1) show ?thesis by (simp add: andThen_def)
  next
    case (Inr x)
    with Pair assms(1) assms(2) [of x] show ?thesis
      by (cases "f x") (auto simp add: andThen_def)
  qed
qed



lemma retrieveAndRecord_events:
  assumes "cacheTag fl \<noteq> [] \<Longrightarrow> P (EvFetch (cacheTag fl))" and "P (EvFetch imageRef)"
    and "\<And>data. P (EvWriteFile data)"
  shows "\<forall>ev \<in> set (snd (retrieveAndRecord fl w lib imageRef keychain)). P ev"
  unfolding retrieveAndRecord_def Let_def
  by (intro andThen_events) (simp_all add: assms)

lemma andThen_quiet_Inr: "andThen (quiet (Inr x)) f = f x"
  by (simp add: andThen_def quiet_def split: prod.splits)

lemma main_record_events:
  assumes "reportFile w = Inr report" and "Tags (er_Image report) = tag0 # tags"
    and "cacheTag fl \<noteq> [] \<Longrightarrow> P (EvFetch (cacheTag fl))"
    and "P (EvFetch (tag0 @ ''@'' @ Digest (er_Image report)))"
    and "\<And>data. P (EvWriteFile data)" and "P EvK8sChain" and "\<And>path. P (EvSaveCreds path)"
  shows "\<forall>ev \<in> set (snd (main_record fl w lib)). P ev"
  unfolding main_record_def Let_def assms(1) andThen_quiet_Inr assms(2) list.case
  apply (intro andThen_events retrieveAndRecord_events)
  using assms(3-) apply (simp_all add: builtImageRef_def split: option.splits)
  done



text \<open>
  C6. When \<open>os.Stat\<close> finds nothing at the cosign secret path and the notary URL is
  empty, the signing step of \<open>main\<close> calls no backend and gives no error; so \<open>main\<close>
  returns after "Build successful" whenever the steps before the signing step gave no
  error, and no call of a signing backend is in its trace.
\<close>

theorem main_no_signing:
  assumes "Stat w cosignSecretLocation = StatNotExist" and "notaryV1URL fl = []"
  shows "main_sign fl w report keychain = (Inr (), []) \<and>
         (\<forall>x tr. main_record fl w lib = (Inr x, tr) \<longrightarrow> main fl w lib = (Inr (), tr)) \<and>
         (\<forall>ev \<in> set (snd (main fl w lib)). \<not> isSignEvent ev)"
proof (intro conjI allI impI)
  show sign: "main_sign fl w r k = (Inr (), [])" for r k
    using assms by (simp add: main_sign_def hasCosign_def)
  show "main fl w lib = (Inr (), tr)" if "main_record fl w lib = (Inr x, tr)" for x tr
    using that sign by (simp add: main_def andThen_def split: prod.splits)
  have "\<forall>ev \<in> set (snd (main_record fl w lib)). \<not> isSignEvent ev"
  proof (cases "reportFile w")
    case (Inl err)
    then show ?thesis by (simp add: main_record_def andThen_def quiet_def)
  next
    case (Inr rep)
    show ?thesis
    proof (cases "Tags (er_Image rep)")
      case Nil
      with Inr show ?thesis by (simp add: main_record_def andThen_quiet_Inr)
    next
      case (Cons tag0 tags)
      show ?thesis
        by (rule main_record_events [OF Inr Cons]) simp_all
    qed
  qed
  then show "\<forall>ev \<in> set (snd (main fl w lib)). \<not> isSignEvent ev"
    unfolding main_def by (intro andThen_events) (simp_all add: sign split: prod.splits)
qed

text \<open>The run of the sample world: no signing secret, no notary URL.\<close>

theorem main_no_signing_witness:
  "main sample_flags sample_world sample_libs =
     (Inr (), [EvK8sChain, EvSaveCreds ''/home/cnb/.docker/config.json'',
               EvFetch ''reg.io/app:latest@sha256:abc'', EvWriteFile ''compressed''])"
proof -
  have h1: "Stat sample_world cosignSecretLocation = StatNotExist"
    by (simp add: sample_world_def)
  have h2: "notaryV1URL sample_flags = []"
    by (simp add: sample_flags_def)
  have rec: "main_record sample_flags sample_world sample_libs =
      (Inr (sample_report,
            MultiKeychain [Keychain 0,
              CredsKeychain [''basic.io'' \<mapsto> ''basic'', ''shared.io'' \<mapsto> ''basic'']]),
       [EvK8sChain, EvSaveCreds ''/home/cnb/.docker/config.json'',
        EvFetch ''reg.io/app:latest@sha256:abc'', EvWriteFile ''compressed''])"
    by (simp add: all_eval_defs)
  from main_no_signing [OF h1 h2, of sample_report "Keychain 0" sample_libs] rec
  show ?thesis by blast
qed



subsection \<open>Credentials\<close>

lemma foldl_map_add_lookup:
  "foldl (++) b ms d =
     (case List.find (\<lambda>m. m d \<noteq> None) (rev ms) of Some m \<Rightarrow> m d | None \<Rightarrow> b d)"
proof (induction ms rule: rev_induct)
  case Nil
  show ?case by simp
next
  case (snoc m ms)
  then show ?case by (cases "m d") (simp_all add: map_add_def)
qed

lemma loadDockerConfigs_foldl:
  assumes "list_all2 (\<lambda>c m. ParseDockerConfigSecret w (Join w [registrySecretsDir, c]) = Inr m) cs ms"
  shows "loadDockerConfigs w creds cs = Inr (foldl (++) creds ms)"
  using assms
proof (induction cs ms arbitrary: creds rule: list_all2_induct)
  case Nil
  show ?case by simp
next
  case (Cons c m cs ms)
  then show ?case by (simp add: Append_def)
qed

text \<open>
  C8. The basic-auth secrets parse to \<open>basic\<close>, the legacy docker-cfg secrets to the
  maps \<open>cfgs\<close> and the JSON docker-config secrets to the maps \<open>jsons\<close>, each in the
  order of its flags. Then the credentials that \<open>main\<close> loads hold, for every registry
  domain, the entry of the last source that has one for it, JSON docker-config secrets
  after legacy docker-cfg secrets after the basic-auth secrets; a domain that no later
  source names keeps the entry it had.
\<close>

theorem loadCredentials_last_writer_wins:
  assumes "ParseBasicAuthSecrets w registrySecretsDir (dockerCredentials fl) = Inr basic"
    and "list_all2 (\<lambda>c m. ParseDockerConfigSecret w (Join w [registrySecretsDir, c]) = Inr m)
           (dockerCfgCredentials fl) cfgs"
    and "list_all2 (\<lambda>c m. ParseDockerConfigSecret w (Join w [registrySecretsDir, c]) = Inr m)
           (dockerConfigCredentials fl) jsons"
  shows "\<exists>creds. loadCredentials fl w = Inr creds \<and>
           (\<forall>domain. creds domain =
              (case List.find (\<lambda>m. m domain \<noteq> None) (rev jsons @ rev cfgs) of
                 Some m \<Rightarrow> m domain
               | None \<Rightarrow> basic domain))"
proof -
  from assms(2,3)
  have "list_all2 (\<lambda>c m. ParseDockerConfigSecret w (Join w [registrySecretsDir, c]) = Inr m)
          (dockerCfgCredentials fl @ dockerConfigCredentials fl) (cfgs @ jsons)"
    by (rule list_all2_appendI)
  then have "loadCredentials fl w = Inr (foldl (++) basic (cfgs @ jsons))"
    using assms(1) by (simp add: loadCredentials_def loadDockerConfigs_foldl)
  moreover have "foldl (++) basic (cfgs @ jsons) domain =
      (case List.find (\<lambda>m. m domain \<noteq> None) (rev jsons @ rev cfgs) of
         Some m \<Rightarrow> m domain | None \<Rightarrow> basic domain)" for domain
    using foldl_map_add_lookup [of basic "cfgs @ jsons" domain] by simp
  ultimately show ?thesis by simp
qed

text \<open>The domain \<open>shared.io\<close> is in all three sources, \<open>cfg.io\<close> in the second only,
  \<open>basic.io\<close> in the first only.\<close>

theorem loadCredentials_last_writer_wins_witness:
  "\<exists>creds. loadCredentials credential_flags sample_world = Inr creds \<and>
     creds ''shared.io'' = Some ''json'' \<and> creds ''cfg.io'' = Some ''cfg'' \<and>
     creds ''basic.io'' = Some ''basic'' \<and> creds ''other.io'' = None"
proof -
  have h1: "ParseBasicAuthSecrets sample_world registrySecretsDir (dockerCredentials credential_flags)
              = Inr [''basic.io'' \<mapsto> ''basic'', ''shared.io'' \<mapsto> ''basic'']"
    by (simp add: sample_world_def)
  have h2: "list_all2 (\<lambda>c m. ParseDockerConfigSecret sample_world
                (Join sample_world [registrySecretsDir, c]) = Inr m)
              (dockerCfgCredentials credential_flags)
              [[''shared.io'' \<mapsto> ''cfg'', ''cfg.io'' \<mapsto> ''cfg'']]"
    by (simp add: sample_world_defs)
  have h3: "list_all2 (\<lambda>c m. ParseDockerConfigSecret sample_world
                (Join sample_world [registrySecretsDir, c]) = Inr m)
              (dockerConfigCredentials credential_flags)
              [[''shared.io'' \<mapsto> ''json'']]"
    by (simp add: sample_world_defs)
  from loadCredentials_last_writer_wins [OF h1 h2 h3]
  obtain creds where c: "loadCredentials credential_flags sample_world = Inr creds"
    and l: "\<And>domain. creds domain =
      (case List.find (\<lambda>m. m domain \<noteq> None)
              (rev [[''shared.io'' \<mapsto> ''json'']] @
               rev [[''shared.io'' \<mapsto> ''cfg'', ''cfg.io'' \<mapsto> ''cfg'']]) of
         Some m \<Rightarrow> m domain
       | None \<Rightarrow> [''basic.io'' \<mapsto> ''basic'', ''shared.io'' \<mapsto> ''basic''] domain)"
    by blast
  have "creds ''shared.io'' = Some ''json''" "creds ''cfg.io'' = Some ''cfg''"
    "creds ''basic.io'' = Some ''basic''" "creds ''other.io'' = None"
    by (simp_all add: l)
  with c show ?thesis by blast
qed
end
